theory Spec2Isabelle
  imports Main "HOL-Library.Word" "HOL-Library.Multiset" "HOL-Library.AList"
begin

section \<open>Errors\<close>

text \<open>
  A Go \<open>error\<close> value is \<open>error option\<close>: \<open>None\<close> is \<open>nil\<close>. An error of a library is
  opaque but for its message; \<open>Wrapped cause msg\<close> is what \<open>errors.Wrapf\<close> of
  \<open>github.com/pkg/errors\<close> builds around a cause.
\<close>

datatype error = LibError string | Wrapped error string

fun Error :: "error \<Rightarrow> string" where
  "Error (LibError s) = s"
| "Error (Wrapped cause msg) = msg @ '': '' @ Error cause"

text \<open>
  \<open>errors.Wrapf(err, format, args...)\<close>: the library documents "If err is nil, Wrapf
  returns nil". The second argument here is the message already formatted.
\<close>

fun Wrapf :: "error option \<Rightarrow> string \<Rightarrow> error option" where
  "Wrapf None msg = None"
| "Wrapf (Some err) msg = Some (Wrapped err msg)"

text \<open>The verb \<open>%v\<close> of \<open>fmt\<close> applied to an error value.\<close>

fun fmt_v :: "error option \<Rightarrow> string" where
  "fmt_v None = ''<nil>''"
| "fmt_v (Some err) = Error err"

section \<open>Telemetry attributes\<close>

text \<open>
  \<open>attribute.KeyValue\<close> of OpenTelemetry, with the three kinds of value the source builds
  (\<open>String\<close>, \<open>StringSlice\<close>, \<open>Int\<close>). Go's \<open>int\<close> is taken as the 64-bit machine
  integer: \<open>+\<close> wraps around.
\<close>

type_synonym go_int = "64 word"

datatype Value = StringValue string | StringSliceValue "string list" | IntValue go_int

record KeyValue =
  Key :: string
  Value :: Value

definition KV :: "string \<Rightarrow> Value \<Rightarrow> KeyValue" where
  "KV k v = \<lparr>Key = k, Value = v\<rparr>"

text \<open>
  Modelled from the spec: the key constants \<open>ScmType\<close>, \<open>ScmProvider\<close>, \<open>ScmRepository\<close>,
  \<open>ScmBranch\<close>, \<open>ScmAuthors\<close>, \<open>ScmCommitters\<close>, \<open>GitAdditions\<close>, \<open>GitDeletions\<close> and
  \<open>GitModifiedFiles\<close> are declared outside \<open>git.go\<close>; section 6 of the spec names the keys.
\<close>

definition ScmType :: string where "ScmType = ''scm-type''"
definition ScmProvider :: string where "ScmProvider = ''scm-provider''"
definition ScmRepository :: string where "ScmRepository = ''scm-repository''"
definition ScmBranch :: string where "ScmBranch = ''scm-branch''"
definition ScmAuthors :: string where "ScmAuthors = ''scm-authors''"
definition ScmCommitters :: string where "ScmCommitters = ''scm-committers''"
definition GitAdditions :: string where "GitAdditions = ''git-additions''"
definition GitDeletions :: string where "GitDeletions = ''git-deletions''"
definition GitModifiedFiles :: string where "GitModifiedFiles = ''git-modified-files''"

section \<open>The go-git library, as the source sees it\<close>

text \<open>
  The library is not part of the repository: every call the source makes is a field of
  the record \<open>Repository\<close> below, holding what the call returns (\<open>Inl\<close> its error, \<open>Inr\<close>
  its value). \<open>MergeBase\<close> and \<open>Tree\<close> are methods of a commit in Go; a commit reads
  the object store of its repository, so they are fields of \<open>Repository\<close> too
  (\<open>Tree_of\<close>, and \<open>Patch_to\<close> for \<open>Tree.Patch\<close>). The library's structs keep the fields
  the source reads, and a commit its parent hashes. A timestamp is an integer (an
  instant); \<open>Before\<close> is \<open><\<close>.
\<close>

type_synonym Hash = string

record Signature =
  Email :: string
  When :: int

record Commit =
  Hash :: Hash
  Author :: Signature
  Committer :: Signature
  ParentHashes :: "Hash list"

text \<open>\<open>plumbing.Reference\<close>: \<open>ref_Name\<close> is \<open>Name().String()\<close>, \<open>ref_Hash\<close> is \<open>Hash()\<close>.\<close>

record Reference =
  ref_Name :: string
  ref_Hash :: Hash

text \<open>\<open>config.Branch\<close> and \<open>config.RemoteConfig\<close>.\<close>

record Branch =
  Merge :: string

record RemoteConfig =
  URLs :: "string list"

text \<open>A tree is the files of a snapshot, each a path with its lines.\<close>

type_synonym Tree = "(string \<times> string list) list"

record FileStat =
  Name :: string
  Addition :: go_int
  Deletion :: go_int

record Patch =
  Stats :: "FileStat list"

text \<open>\<open>git.LogOptions\<close>, the two fields the source sets.\<close>

record LogOptions =
  From :: Hash
  Since :: "int option"

text \<open>
  \<open>object.CommitIter\<close>: the commits that \<open>Next\<close> yields in order, and the error (if any)
  that ends the iteration instead of \<open>io.EOF\<close>.
\<close>

record CommitIter =
  iter_commits :: "Commit list"
  iter_stop :: "error option"

record Repository =
  Branch_of :: "string \<Rightarrow> error + Branch"
  ResolveRevision :: "string \<Rightarrow> error + Hash"
  CommitObject :: "Hash \<Rightarrow> error + Commit"
  Head :: "error + Reference"
  Remote :: "string \<Rightarrow> error + RemoteConfig"
  MergeBase :: "Commit \<Rightarrow> Commit \<Rightarrow> error + Commit list"
  Log :: "LogOptions \<Rightarrow> error + CommitIter"
  Tree_of :: "Commit \<Rightarrow> error + Tree"
  Patch_to :: "Tree \<Rightarrow> Tree \<Rightarrow> error + Patch"

text \<open>
  What is outside the process: the environment variables (\<open>os.Getenv\<close>), the file
  system (\<open>git.PlainOpen\<close>), the pure function \<open>plumbing.NewHash\<close>, and the order in
  which Go ranges over the two maps of \<open>contributeCommitters\<close> (unspecified by the
  language): \<open>rangeAuthors\<close> and \<open>rangeCommitters\<close> give, for the keys of a map in
  insertion order, the order the loop visits them in.
\<close>

record Runtime =
  Getenv :: "string \<Rightarrow> string"
  PlainOpen :: "string \<Rightarrow> error + Repository"
  NewHash :: "string \<Rightarrow> Hash"
  rangeAuthors :: "string list \<Rightarrow> string list"
  rangeCommitters :: "string list \<Rightarrow> string list"

definition range_orders :: "Runtime \<Rightarrow> bool" where
  "range_orders rt \<longleftrightarrow>
     (\<forall>ks. mset (rangeAuthors rt ks) = mset ks) \<and> (\<forall>ks. mset (rangeCommitters rt ks) = mset ks)"

text \<open>
  \<open>CommitIter.ForEach\<close> with a callback that never fails (the one of the source returns
  \<open>nil\<close>): the callback runs on each commit in turn, the state being what it mutates.
\<close>

definition ForEach :: "CommitIter \<Rightarrow> (Commit \<Rightarrow> 's \<Rightarrow> 's) \<Rightarrow> 's \<Rightarrow> 's \<times> error option" where
  "ForEach it cb s = (fold cb (iter_commits it) s, iter_stop it)"

section \<open>git.go\<close>

text \<open>
  The functions of the source, in its order. What \<open>fmt.Printf\<close> writes to the standard
  output is not part of the model. A function with the results \<open>(value, error)\<close>
  returns the pair, as in Go.
\<close>

record GitScm =
  repositoryPath :: string

definition calculateCommits ::
  "Runtime \<Rightarrow> Repository \<Rightarrow> string \<Rightarrow> string \<Rightarrow> Commit option \<times> Commit option \<times> error option" where
  "calculateCommits rt repository headSha targetBranchEnv =
     (case Branch_of repository targetBranchEnv of
        Inl err \<Rightarrow>
          (None, None, Wrapf (Some err)
             (''not able to retrieve the '' @ targetBranchEnv @ '' TARGET_BRANCH: '' @ fmt_v (Some err)))
      | Inr targetBranch \<Rightarrow>
     (case ResolveRevision repository (Merge targetBranch) of
        Inl err \<Rightarrow>
          (None, None, Wrapf (Some err)
             (''not able to retrieve ref from TARGET_BRANCH: '' @ fmt_v (Some err)))
      | Inr targetRef \<Rightarrow>
     (case CommitObject repository targetRef of
        Inl err \<Rightarrow>
          (None, None, Wrapf (Some err)
             (''not able to retrieve commit from TARGET_BRANCH: '' @ fmt_v (Some err)))
      | Inr targetCommit \<Rightarrow>
     (case (if headSha = '''' then
              (case Head repository of
                 Inl err \<Rightarrow> Inl err
               | Inr headRef \<Rightarrow> Inr (ref_Hash headRef))
            else Inr (NewHash rt headSha)) of
        Inl err \<Rightarrow>
          (None, None, Wrapf (Some err)
             (''not able to retrieve ref from HEAD: '' @ fmt_v (Some err)))
      | Inr headRefSha \<Rightarrow>
     (case CommitObject repository headRefSha of
        Inl err \<Rightarrow>
          (None, None, Wrapf (Some err)
             (''not able to retrieve commit from HEAD: '' @ fmt_v (Some err)))
      | Inr headCommit \<Rightarrow> (Some headCommit, Some targetCommit, None))))))"

definition checkGitProvider :: "Runtime \<Rightarrow> string \<times> string \<times> string" where
  "checkGitProvider rt =
     (let sha = Getenv rt ''GITHUB_SHA''; baseRef = Getenv rt ''GITHUB_BASE_REF'' in
      if sha \<noteq> '''' \<and> baseRef \<noteq> '''' then (sha, baseRef, ''Github'')
      else
        let sha = Getenv rt ''CI_MERGE_REQUEST_SOURCE_BRANCH_SHA'';
            baseRef = Getenv rt ''CI_MERGE_REQUEST_TARGET_BRANCH_NAME'' in
        if sha \<noteq> '''' \<and> baseRef \<noteq> '''' then (sha, baseRef, ''Gitlab'')
        else ('''', Getenv rt ''TARGET_BRANCH'', ''''))"

text \<open>
  \<open>mapToArray\<close>: the keys of the map in the order the \<open>range\<close> loop visits them. A Go
  \<open>map[string]bool\<close> is an association list with distinct keys, in insertion order.
\<close>

definition mapToArray :: "(string list \<Rightarrow> string list) \<Rightarrow> (string \<times> bool) list \<Rightarrow> string list" where
  "mapToArray range_order m = fold (\<lambda>k array. array @ [k]) (range_order (map fst m)) []"

definition openLocalRepository :: "Runtime \<Rightarrow> GitScm \<Rightarrow> error + Repository" where
  "openLocalRepository rt scm =
     (case PlainOpen rt (repositoryPath scm) of
        Inl err \<Rightarrow> Inl err
      | Inr repository \<Rightarrow> Inr repository)"

text \<open>
  The callback of \<open>contributeCommitters\<close>: it stores the two e-mails of a commit in the
  maps \<open>authors\<close> and \<open>committers\<close>.
\<close>

definition collect :: "Commit \<Rightarrow> (string \<times> bool) list \<times> (string \<times> bool) list
    \<Rightarrow> (string \<times> bool) list \<times> (string \<times> bool) list" where
  "collect c = (\<lambda>(authors, committers).
     (AList.update (Email (Author c)) True authors,
      AList.update (Email (Committer c)) True committers))"

definition contributeCommitters ::
  "Runtime \<Rightarrow> Repository \<Rightarrow> Commit \<Rightarrow> Commit \<Rightarrow> KeyValue list \<times> error option" where
  "contributeCommitters rt repository headCommit targetCommit =
     (let attributes = [] in
      case MergeBase repository headCommit targetCommit of
        Inl err \<Rightarrow>
          (attributes, Wrapf (Some err)
             (''not able to find a common ancestor between HEAD and TARGET_BRANCH: '' @ fmt_v (Some err)))
      | Inr commits \<Rightarrow>
          if length commits = 0 then
            (attributes, Wrapf None
               (''not able to find a common ancestor between HEAD and TARGET_BRANCH: '' @ fmt_v None))
          else
            let ancestor = commits ! 0 in
            case Log repository \<lparr>From = Hash headCommit, Since = Some (When (Author ancestor))\<rparr> of
              Inl err \<Rightarrow>
                (attributes, Wrapf (Some err)
                   (''not able to retrieve commits between HEAD and TARGET_BRANCH: '' @ fmt_v (Some err)))
            | Inr commitsIterator \<Rightarrow>
                let (authors, committers) = fst (ForEach commitsIterator collect ([], []));
                    attributes =
                      (if length authors > 0
                       then attributes @ [KV ScmAuthors (StringSliceValue (mapToArray (rangeAuthors rt) authors))]
                       else attributes);
                    attributes =
                      (if length committers > 0
                       then attributes @ [KV ScmCommitters (StringSliceValue (mapToArray (rangeCommitters rt) committers))]
                       else attributes)
                in (attributes, None))"

text \<open>The loop of \<open>contributeFilesAndLines\<close> over \<open>patch.Stats()\<close>.\<close>

definition count_stat :: "FileStat \<Rightarrow> string list \<times> go_int \<times> go_int \<Rightarrow> string list \<times> go_int \<times> go_int" where
  "count_stat fileStat = (\<lambda>(changedFiles, additions, deletions).
     (changedFiles @ [Name fileStat], additions + Addition fileStat, deletions + Deletion fileStat))"

definition contributeFilesAndLines ::
  "Repository \<Rightarrow> Commit \<Rightarrow> Commit \<Rightarrow> KeyValue list \<times> error option" where
  "contributeFilesAndLines repository headCommit targetCommit =
     (let attributes = [] in
      case Tree_of repository headCommit of
        Inl err \<Rightarrow>
          (attributes, Wrapf (Some err) (''not able to find a HEAD tree: '' @ fmt_v (Some err)))
      | Inr headTree \<Rightarrow>
     (case Tree_of repository targetCommit of
        Inl err \<Rightarrow>
          (attributes, Wrapf (Some err) (''not able to find a TARGET_BRANCH tree: '' @ fmt_v (Some err)))
      | Inr targetTree \<Rightarrow>
     (case Patch_to repository headTree targetTree of
        Inl err \<Rightarrow>
          (attributes, Wrapf (Some err)
             (''not able to find the pathc between HEAD and TARGET_BRANCH trees: '' @ fmt_v (Some err)))
      | Inr patch \<Rightarrow>
          let (changedFiles, additions, deletions) = fold count_stat (Stats patch) ([], 0, 0);
              attributes = attributes @ [KV GitAdditions (IntValue additions)];
              attributes = attributes @ [KV GitDeletions (IntValue deletions)];
              attributes = attributes @ [KV GitModifiedFiles (IntValue (of_nat (length changedFiles)))]
          in (attributes, None))))"

text \<open>
  The loop of \<open>contributeAttributes\<close> over the contributions: a contribution that
  returns an error is skipped (\<open>continue\<close>), the attributes of the others are appended.
\<close>

type_synonym contribution = "Repository \<Rightarrow> Commit \<Rightarrow> Commit \<Rightarrow> KeyValue list \<times> error option"

fun contribute :: "contribution list \<Rightarrow> Repository \<Rightarrow> Commit \<Rightarrow> Commit \<Rightarrow> KeyValue list \<Rightarrow> KeyValue list" where
  "contribute [] repository headCommit targetCommit gitAttributes = gitAttributes"
| "contribute (contribution # rest) repository headCommit targetCommit gitAttributes =
     (case contribution repository headCommit targetCommit of
        (contributtedAttributes, Some err) \<Rightarrow>
          contribute rest repository headCommit targetCommit gitAttributes
      | (contributtedAttributes, None) \<Rightarrow>
          contribute rest repository headCommit targetCommit (gitAttributes @ contributtedAttributes))"

text \<open>
  \<open>contributeAttributes\<close> returns a list and no error. \<open>None\<close> stands for a run that does
  not return: the dereference of a \<open>nil\<close> commit, were \<open>calculateCommits\<close> to return no
  error and no commit.
\<close>

definition contributeAttributes :: "Runtime \<Rightarrow> GitScm \<Rightarrow> KeyValue list option" where
  "contributeAttributes rt scm =
     (case openLocalRepository rt scm of
        Inl err \<Rightarrow> Some []
      | Inr repository \<Rightarrow>
          let (headSha, targetBranchEnv, gitProvider) = checkGitProvider rt;
              gitAttributes = [KV ScmType (StringValue ''git'')];
              gitAttributes =
                (if gitProvider \<noteq> ''''
                 then gitAttributes @ [KV ScmProvider (StringValue gitProvider)]
                 else gitAttributes)
          in
          case Remote repository ''origin'' of
            Inl err \<Rightarrow> Some gitAttributes
          | Inr origin \<Rightarrow>
              let gitAttributes = gitAttributes @ [KV ScmRepository (StringSliceValue (URLs origin))] in
              case Head repository of
                Inl err \<Rightarrow> Some gitAttributes
              | Inr branch \<Rightarrow>
                  let gitAttributes = gitAttributes @ [KV ScmBranch (StringValue (ref_Name branch))] in
                  case calculateCommits rt repository headSha targetBranchEnv of
                    (headCommit, targetCommit, err) \<Rightarrow>
                      (case err of
                         Some e \<Rightarrow> Some gitAttributes
                       | None \<Rightarrow>
                           (case (headCommit, targetCommit) of
                              (Some h, Some t) \<Rightarrow>
                                Some (contribute [contributeCommitters rt, contributeFilesAndLines]
                                        repository h t gitAttributes)
                            | _ \<Rightarrow> None)))"

section \<open>An example repository\<close>

text \<open>
  The scenario of section 8 of the spec: \<open>commit1\<close> (root), \<open>commit2\<close> (adds \<open>a.txt\<close> with
  three lines), \<open>commit3\<close> (changes one line of \<open>a.txt\<close>); the branch \<open>main\<close> points at
  \<open>commit1\<close>, \<open>HEAD\<close> (detached) at \<open>commit3\<close>. Each commit has its own author, who is
  also its committer, and one timestamp. \<open>orphan\<close> is a second root, unrelated to the
  three. \<open>backdated\<close> is a third root, committed with a committer date set before its
  author date.
\<close>

definition commit1 :: Commit where
  "commit1 = \<lparr>Hash = ''c1'',
     Author = \<lparr>Email = ''ann@example.org'', When = 100\<rparr>,
     Committer = \<lparr>Email = ''ann@example.org'', When = 100\<rparr>,
     ParentHashes = []\<rparr>"

definition commit2 :: Commit where
  "commit2 = \<lparr>Hash = ''c2'',
     Author = \<lparr>Email = ''bob@example.org'', When = 200\<rparr>,
     Committer = \<lparr>Email = ''bob@example.org'', When = 200\<rparr>,
     ParentHashes = [''c1'']\<rparr>"

definition commit3 :: Commit where
  "commit3 = \<lparr>Hash = ''c3'',
     Author = \<lparr>Email = ''cat@example.org'', When = 300\<rparr>,
     Committer = \<lparr>Email = ''cat@example.org'', When = 300\<rparr>,
     ParentHashes = [''c2'']\<rparr>"

definition orphan :: Commit where
  "orphan = \<lparr>Hash = ''o1'',
     Author = \<lparr>Email = ''dan@example.org'', When = 400\<rparr>,
     Committer = \<lparr>Email = ''dan@example.org'', When = 400\<rparr>,
     ParentHashes = []\<rparr>"

definition backdated :: Commit where
  "backdated = \<lparr>Hash = ''b1'',
     Author = \<lparr>Email = ''eve@example.org'', When = 500\<rparr>,
     Committer = \<lparr>Email = ''eve@example.org'', When = 50\<rparr>,
     ParentHashes = []\<rparr>"

definition tree1 :: Tree where "tree1 = []"
definition tree2 :: Tree where "tree2 = [(''a.txt'', [''one'', ''two'', ''three''])]"
definition tree3 :: Tree where "tree3 = [(''a.txt'', [''one'', ''TWO'', ''three''])]"
definition tree_orphan :: Tree where "tree_orphan = [(''b.txt'', [''x''])]"

text \<open>The history of a commit of the example: the commit and its ancestors, newest first.\<close>

definition history :: "Hash \<Rightarrow> Commit list" where
  "history h =
     (if h = ''o1'' then [orphan]
      else if h = ''b1'' then [backdated]
      else dropWhile (\<lambda>c. Hash c \<noteq> h) [commit3, commit2, commit1])"

text \<open>
  What the library answers on the example. \<open>MergeBase\<close>: the older of two commits of the
  chain, the commit itself for a commit and itself, nothing for two commits of
  different roots. \<open>Log\<close>: the history of \<open>From\<close>, without the commits whose committer
  timestamp is before \<open>Since\<close>. \<open>Patch_to\<close>: the patch that turns the first tree into
  the second, for the pairs of trees the examples use.
\<close>

definition example :: Repository where
  "example = \<lparr>
     Branch_of = (\<lambda>name. if name = ''main'' then Inr \<lparr>Merge = ''refs/heads/main''\<rparr>
                          else Inl (LibError ''branch not found'')),
     ResolveRevision = (\<lambda>rev. if rev = ''refs/heads/main'' then Inr ''c1''
                                else Inl (LibError ''reference not found'')),
     CommitObject = (\<lambda>h. case history h of
                             [] \<Rightarrow> Inl (LibError ''object not found'')
                           | c # _ \<Rightarrow> Inr c),
     Head = Inr \<lparr>ref_Name = ''HEAD'', ref_Hash = ''c3''\<rparr>,
     Remote = (\<lambda>name. if name = ''origin'' then Inr \<lparr>URLs = [''https://example.org/repo.git'']\<rparr>
                       else Inl (LibError ''remote not found'')),
     MergeBase = (\<lambda>a b. if Hash a = Hash b then Inr [a]
                         else if Hash a \<in> {''o1'', ''b1''} \<or> Hash b \<in> {''o1'', ''b1''} then Inr []
                         else Inr [if When (Committer a) \<le> When (Committer b) then a else b]),
     Log = (\<lambda>opts. case history (From opts) of
                      [] \<Rightarrow> Inl (LibError ''object not found'')
                    | c # cs \<Rightarrow>
                        Inr \<lparr>iter_commits =
                               filter (\<lambda>c. case Since opts of
                                              None \<Rightarrow> True
                                            | Some t \<Rightarrow> t \<le> When (Committer c)) (c # cs),
                             iter_stop = None\<rparr>),
     Tree_of = (\<lambda>c. if Hash c = ''c1'' then Inr tree1
                     else if Hash c = ''c2'' then Inr tree2
                     else if Hash c = ''c3'' then Inr tree3
                     else if Hash c = ''o1'' then Inr tree_orphan
                     else if Hash c = ''b1'' then Inr tree1
                     else Inl (LibError ''object not found'')),
     Patch_to = (\<lambda>from to.
                   if from = to then Inr \<lparr>Stats = []\<rparr>
                   else if from = tree3 \<and> to = tree1
                     then Inr \<lparr>Stats = [\<lparr>Name = ''a.txt'', Addition = 0, Deletion = 3\<rparr>]\<rparr>
                   else if from = tree1 \<and> to = tree3
                     then Inr \<lparr>Stats = [\<lparr>Name = ''a.txt'', Addition = 3, Deletion = 0\<rparr>]\<rparr>
                   else if from = tree_orphan \<and> to = tree1
                     then Inr \<lparr>Stats = [\<lparr>Name = ''b.txt'', Addition = 0, Deletion = 1\<rparr>]\<rparr>
                   else Inl (LibError ''not a pair of the example''))\<rparr>"

text \<open>
  A run on a checkout of a repository at \<open>/work/repo\<close>, with \<open>TARGET_BRANCH=main\<close> and no
  variable of a provider set, and the run of a Github job whose \<open>GITHUB_SHA\<close> is the
  hash \<open>sha\<close>.
\<close>

definition local_run :: "Repository \<Rightarrow> Runtime" where
  "local_run r = \<lparr>
     Getenv = (\<lambda>name. if name = ''TARGET_BRANCH'' then ''main'' else []),
     PlainOpen = (\<lambda>path. if path = ''/work/repo'' then Inr r
                          else Inl (LibError ''repository does not exist'')),
     NewHash = (\<lambda>s. s),
     rangeAuthors = (\<lambda>ks. ks),
     rangeCommitters = rev\<rparr>"

definition github_run :: "Repository \<Rightarrow> string \<Rightarrow> Runtime" where
  "github_run r sha = (local_run r)\<lparr>
     Getenv := (\<lambda>name. if name = ''GITHUB_SHA'' then sha
                        else if name = ''GITHUB_BASE_REF'' then ''main'' else [])\<rparr>"

definition checkout :: GitScm where
  "checkout = \<lparr>repositoryPath = ''/work/repo''\<rparr>"

text \<open>
  The same repository as a shallow clone that lacks a commit the merge-base search
  needs: \<open>MergeBase\<close> fails there.
\<close>

definition shallow :: Repository where
  "shallow = example\<lparr>MergeBase := (\<lambda>a b. Inl (LibError ''object not found''))\<rparr>"

section \<open>Reading an attribute list\<close>

text \<open>The strings of the list-valued attributes stored under a key, as a set.\<close>

fun slice_of :: "Value \<Rightarrow> string list" where
  "slice_of (StringSliceValue xs) = xs"
| "slice_of (StringValue s) = []"
| "slice_of (IntValue n) = []"

definition strings_at :: "string \<Rightarrow> KeyValue list \<Rightarrow> string set" where
  "strings_at k attributes = set (concat (map (\<lambda>kv. slice_of (Value kv)) (filter (\<lambda>kv. Key kv = k) attributes)))"

section \<open>The history walk of the library\<close>








section \<open>Helper lemmas\<close>

lemma calculateCommits_shape:
  "(\<exists>e. calculateCommits rt r hs tb = (None, None, Some e)) \<or>
   (\<exists>h t. calculateCommits rt r hs tb = (Some h, Some t, None))"
  by (auto simp: calculateCommits_def split: sum.splits)

lemma contribute_two:
  "contribute [f, g] r h t acc =
     acc @ (if snd (f r h t) = None then fst (f r h t) else [])
         @ (if snd (g r h t) = None then fst (g r h t) else [])"
  by (simp split: prod.splits option.splits)

lemma contributeAttributes_opened:
  assumes "PlainOpen rt (repositoryPath scm) = Inr r"
  shows "\<exists>rest. contributeAttributes rt scm = Some (KV ScmType (StringValue ''git'') # rest)"
  using calculateCommits_shape [of rt r "fst (checkGitProvider rt)" "fst (snd (checkGitProvider rt))"] assms
  by (auto simp: contributeAttributes_def openLocalRepository_def Let_def
           split: sum.splits prod.splits option.splits)

lemma fold_collect:
  "fold collect cs (a, c) =
     (fold (\<lambda>x. AList.update (Email (Author x)) True) cs a,
      fold (\<lambda>x. AList.update (Email (Committer x)) True) cs c)"
  by (induction cs arbitrary: a c) (simp_all add: collect_def)

lemma keys_fold_update:
  "fst ` set (fold (\<lambda>x. AList.update (f x) True) cs a) = fst ` set a \<union> f ` set cs"
  by (induction cs arbitrary: a) (auto simp: AList.dom_update)

lemma mapToArray_eq: "mapToArray ro m = ro (map fst m)"
proof -
  have "fold (\<lambda>k array. array @ [k]) ks acc = acc @ ks" for ks acc :: "string list"
    by (induction ks arbitrary: acc) simp_all
  then show ?thesis by (simp add: mapToArray_def)
qed

text \<open>
  What \<open>contributeCommitters\<close> returns once a merge-base is found and the history walk
  has started: the two attributes, each left out when the walk yields no commit.
\<close>

lemma contributeCommitters_walked:
  assumes "MergeBase r h t = Inr (a # rest)"
      and "Log r \<lparr>From = Hash h, Since = Some (When (Author a))\<rparr> = Inr it"
  shows "contributeCommitters rt r h t =
           ((if iter_commits it = [] then []
             else [KV ScmAuthors (StringSliceValue (rangeAuthors rt
                     (map fst (fold (\<lambda>x. AList.update (Email (Author x)) True) (iter_commits it) []))))]) @
            (if iter_commits it = [] then []
             else [KV ScmCommitters (StringSliceValue (rangeCommitters rt
                     (map fst (fold (\<lambda>x. AList.update (Email (Committer x)) True) (iter_commits it) []))))]),
            None)"
proof -
  have ne: "(fold (\<lambda>x. AList.update (f x) True) cs [] = []) = (cs = [])"
    for f :: "Commit \<Rightarrow> string" and cs
    using keys_fold_update [of f cs "[]"] by (cases cs) auto
  show ?thesis
    using assms
    by (simp add: contributeCommitters_def ForEach_def fold_collect mapToArray_eq ne)
qed

lemma fold_count_stat:
  "fold count_stat fs (cf, a, d) =
     (cf @ map Name fs, a + sum_list (map Addition fs), d + sum_list (map Deletion fs))"
  by (induction fs arbitrary: cf a d) (simp_all add: count_stat_def algebra_simps)


lemma contributeFilesAndLines_totals:
  assumes "Tree_of r h = Inr ht" and "Tree_of r t = Inr tt" and "Patch_to r ht tt = Inr p"
  shows "contributeFilesAndLines r h t =
           ([KV GitAdditions (IntValue (sum_list (map Addition (Stats p)))),
             KV GitDeletions (IntValue (sum_list (map Deletion (Stats p)))),
             KV GitModifiedFiles (IntValue (of_nat (length (Stats p))))], None)"
  using assms by (simp add: contributeFilesAndLines_def fold_count_stat)

text \<open>The library's answers on the example that the evaluations below start from.\<close>

lemma example_MergeBase_31: "MergeBase example commit3 commit1 = Inr [commit1]"
  by (simp add: example_def commit3_def commit1_def)

lemma example_Log_31:
  "Log example \<lparr>From = Hash commit3, Since = Some (When (Author commit1))\<rparr> =
     Inr \<lparr>iter_commits = [commit3, commit2, commit1], iter_stop = None\<rparr>"
  by (simp add: example_def commit3_def commit2_def commit1_def history_def)

lemma example_MergeBase_bb: "MergeBase example backdated backdated = Inr [backdated]"
  by (simp add: example_def)

lemma example_Log_bb:
  "Log example \<lparr>From = Hash backdated, Since = Some (When (Author backdated))\<rparr> =
     Inr \<lparr>iter_commits = [], iter_stop = None\<rparr>"
  by (simp add: example_def backdated_def history_def)

lemma example_Tree_of:
  "Tree_of example commit1 = Inr tree1" "Tree_of example commit3 = Inr tree3"
  by (simp_all add: example_def commit1_def commit3_def)

lemma example_Patch_31:
  "Patch_to example tree3 tree1 = Inr \<lparr>Stats = [\<lparr>Name = ''a.txt'', Addition = 0, Deletion = 3\<rparr>]\<rparr>"
  by (simp add: example_def tree3_def tree1_def)

section \<open>The orchestrator\<close>

text \<open>
  C10: if opening the local repository fails, \<open>contributeAttributes\<close> returns the empty
  attribute list; if it succeeds, the returned list is not empty and its first element
  is the key \<open>scm-type\<close> with the string value \<open>git\<close>.
\<close>

theorem contributeAttributes_scm_type_first:
  "(PlainOpen rt (repositoryPath scm) = Inl e \<longrightarrow> contributeAttributes rt scm = Some []) \<and>
   (PlainOpen rt (repositoryPath scm) = Inr r \<longrightarrow>
      (\<exists>rest. contributeAttributes rt scm = Some (KV ScmType (StringValue ''git'') # rest)))"
  using contributeAttributes_opened [of rt scm r]
  by (simp add: contributeAttributes_def openLocalRepository_def)

theorem contributeAttributes_scm_type_first_witness:
  "PlainOpen (local_run example) (repositoryPath \<lparr>repositoryPath = ''/nowhere''\<rparr>)
     = Inl (LibError ''repository does not exist'') \<and>
   contributeAttributes (local_run example) \<lparr>repositoryPath = ''/nowhere''\<rparr> = Some [] \<and>
   PlainOpen (local_run example) (repositoryPath checkout) = Inr example \<and>
   (\<exists>rest. contributeAttributes (local_run example) checkout
      = Some (KV ''scm-type'' (StringValue ''git'') # rest))"
  using contributeAttributes_scm_type_first
          [of "local_run example" "\<lparr>repositoryPath = ''/nowhere''\<rparr>"
              "LibError ''repository does not exist''" example]
        contributeAttributes_scm_type_first
          [of "local_run example" checkout "LibError ''repository does not exist''" example]
  by (simp add: local_run_def checkout_def ScmType_def)

section \<open>The committers computation\<close>

text \<open>
  C2: with an empty set of merge-bases the committers computation should return a
  non-nil error. It does not: at \<open>len(commits) == 0\<close> the variable \<open>err\<close> is \<open>nil\<close>, and
  \<open>errors.Wrapf\<close> of \<open>nil\<close> is \<open>nil\<close>. For \<open>orphan\<close> and \<open>commit1\<close>, which share no
  history, it returns no attribute and no error.
\<close>

theorem contributeCommitters_no_common_ancestor:
  "MergeBase example orphan commit1 = Inr [] \<and>
   contributeCommitters (local_run example) example orphan commit1 = ([], None)"
  by (simp add: contributeCommitters_def example_def orphan_def commit1_def)

text \<open>
  C7: when the committers computation gets through the history walk, it returns no
  error, also when the author set (the committer set) is empty; the key \<open>scm-authors\<close>
  (\<open>scm-committers\<close>) is in the output exactly when that set is not empty.
\<close>

theorem contributeCommitters_empty_set_suppression:
  assumes "MergeBase r h t = Inr (a # rest)"
      and "Log r \<lparr>From = Hash h, Since = Some (When (Author a))\<rparr> = Inr it"
  shows "snd (contributeCommitters rt r h t) = None \<and>
         (ScmAuthors \<in> Key ` set (fst (contributeCommitters rt r h t)))
           = ((\<lambda>c. Email (Author c)) ` set (iter_commits it) \<noteq> {}) \<and>
         (ScmCommitters \<in> Key ` set (fst (contributeCommitters rt r h t)))
           = ((\<lambda>c. Email (Committer c)) ` set (iter_commits it) \<noteq> {})"
  by (simp add: contributeCommitters_walked [OF assms] KV_def ScmAuthors_def ScmCommitters_def)

theorem contributeCommitters_empty_set_suppression_witness:
  "contributeCommitters (local_run example) example backdated backdated = ([], None) \<and>
   snd (contributeCommitters (local_run example) example commit3 commit1) = None \<and>
   ScmAuthors \<in> Key ` set (fst (contributeCommitters (local_run example) example commit3 commit1)) \<and>
   ScmCommitters \<in> Key ` set (fst (contributeCommitters (local_run example) example commit3 commit1))"
proof -
  have "ScmAuthors \<notin> Key ` set (fst (contributeCommitters (local_run example) example backdated backdated))"
       "ScmCommitters \<notin> Key ` set (fst (contributeCommitters (local_run example) example backdated backdated))"
       "snd (contributeCommitters (local_run example) example backdated backdated) = None"
    using contributeCommitters_empty_set_suppression
            [OF example_MergeBase_bb example_Log_bb, of "local_run example"]
    by simp_all
  moreover have "contributeCommitters (local_run example) example backdated backdated = ([], None)"
    by (simp add: contributeCommitters_walked [OF example_MergeBase_bb example_Log_bb])
  ultimately show ?thesis
    using contributeCommitters_empty_set_suppression
            [OF example_MergeBase_31 example_Log_31, of "local_run example"]
    by simp
qed

section \<open>The diffstat\<close>



section \<open>Determinism of the committers computation\<close>

lemma range_set:
  assumes "\<forall>ks. mset (ro ks) = mset ks"
  shows "set (ro ks) = set ks"
  using assms by (metis set_mset_mset)

lemma keys_collected:
  "fst ` set (fold (\<lambda>x. AList.update (f x) True) cs []) = f ` set cs"
  using keys_fold_update [of f cs "[]"] by simp

text \<open>The four ways through \<open>contributeCommitters\<close>.\<close>

lemma contributeCommitters_cases:
  "contributeCommitters rt r h t =
     (case MergeBase r h t of
        Inl e \<Rightarrow>
          ([], Some (Wrapped e
             (''not able to find a common ancestor between HEAD and TARGET_BRANCH: '' @ Error e)))
      | Inr [] \<Rightarrow> ([], None)
      | Inr (a # rest) \<Rightarrow>
          (case Log r \<lparr>From = Hash h, Since = Some (When (Author a))\<rparr> of
             Inl e \<Rightarrow>
               ([], Some (Wrapped e
                  (''not able to retrieve commits between HEAD and TARGET_BRANCH: '' @ Error e)))
           | Inr it \<Rightarrow>
               ((if iter_commits it = [] then []
                 else [KV ScmAuthors (StringSliceValue (rangeAuthors rt
                         (map fst (fold (\<lambda>x. AList.update (Email (Author x)) True) (iter_commits it) []))))]) @
                (if iter_commits it = [] then []
                 else [KV ScmCommitters (StringSliceValue (rangeCommitters rt
                         (map fst (fold (\<lambda>x. AList.update (Email (Committer x)) True) (iter_commits it) []))))]),
                None)))"
proof (cases "MergeBase r h t")
  case (Inl e)
  then show ?thesis by (simp add: contributeCommitters_def)
next
  case (Inr cs)
  show ?thesis
  proof (cases cs)
    case Nil
    with Inr show ?thesis by (simp add: contributeCommitters_def)
  next
    case (Cons a rest)
    with Inr have mb: "MergeBase r h t = Inr (a # rest)" by simp
    show ?thesis
    proof (cases "Log r \<lparr>From = Hash h, Since = Some (When (Author a))\<rparr>")
      case (Inl e)
      with mb show ?thesis by (simp add: contributeCommitters_def)
    next
      case (Inr it)
      with mb show ?thesis by (simp add: contributeCommitters_walked [OF mb Inr])
    qed
  qed
qed

lemma strings_at_Nil: "strings_at k [] = {}"
  by (simp add: strings_at_def)

lemma strings_at_walked:
  "strings_at ScmAuthors
     ((if b then [] else [KV ScmAuthors (StringSliceValue xs)]) @
      (if b then [] else [KV ScmCommitters (StringSliceValue ys)])) = (if b then {} else set xs)"
  "strings_at ScmCommitters
     ((if b then [] else [KV ScmAuthors (StringSliceValue xs)]) @
      (if b then [] else [KV ScmCommitters (StringSliceValue ys)])) = (if b then {} else set ys)"
  by (simp_all add: strings_at_def KV_def ScmAuthors_def ScmCommitters_def)

text \<open>The two sets of e-mails that the attributes carry, whatever the order of the maps.\<close>

lemma contributeCommitters_strings:
  assumes "range_orders rt"
  shows "strings_at ScmAuthors (fst (contributeCommitters rt r h t)) =
           (case MergeBase r h t of
              Inr (a # rest) \<Rightarrow>
                (case Log r \<lparr>From = Hash h, Since = Some (When (Author a))\<rparr> of
                   Inr it \<Rightarrow> (\<lambda>c. Email (Author c)) ` set (iter_commits it)
                 | Inl e \<Rightarrow> {})
            | _ \<Rightarrow> {})"
    and "strings_at ScmCommitters (fst (contributeCommitters rt r h t)) =
           (case MergeBase r h t of
              Inr (a # rest) \<Rightarrow>
                (case Log r \<lparr>From = Hash h, Since = Some (When (Author a))\<rparr> of
                   Inr it \<Rightarrow> (\<lambda>c. Email (Committer c)) ` set (iter_commits it)
                 | Inl e \<Rightarrow> {})
            | _ \<Rightarrow> {})"
proof -
  have ra: "set (rangeAuthors rt ks) = set ks" and rc: "set (rangeCommitters rt ks) = set ks" for ks
    using assms range_set unfolding range_orders_def by blast+
  show "strings_at ScmAuthors (fst (contributeCommitters rt r h t)) =
           (case MergeBase r h t of
              Inr (a # rest) \<Rightarrow>
                (case Log r \<lparr>From = Hash h, Since = Some (When (Author a))\<rparr> of
                   Inr it \<Rightarrow> (\<lambda>c. Email (Author c)) ` set (iter_commits it)
                 | Inl e \<Rightarrow> {})
            | _ \<Rightarrow> {})"
    by (simp add: contributeCommitters_cases strings_at_walked strings_at_Nil ra keys_collected
          split: sum.splits list.splits)
  show "strings_at ScmCommitters (fst (contributeCommitters rt r h t)) =
           (case MergeBase r h t of
              Inr (a # rest) \<Rightarrow>
                (case Log r \<lparr>From = Hash h, Since = Some (When (Author a))\<rparr> of
                   Inr it \<Rightarrow> (\<lambda>c. Email (Committer c)) ` set (iter_commits it)
                 | Inl e \<Rightarrow> {})
            | _ \<Rightarrow> {})"
    by (simp add: contributeCommitters_cases strings_at_walked strings_at_Nil rc keys_collected
          split: sum.splits list.splits)
qed

lemma contributeCommitters_keys:
  "snd (contributeCommitters rt r h t) = snd (contributeCommitters rt' r h t) \<and>
   map Key (fst (contributeCommitters rt r h t)) = map Key (fst (contributeCommitters rt' r h t))"
  by (simp add: contributeCommitters_cases KV_def split: sum.splits list.splits)

lemma example_committers_31:
  "contributeCommitters rt example commit3 commit1 =
     ([KV ScmAuthors (StringSliceValue
         (rangeAuthors rt [''cat@example.org'', ''bob@example.org'', ''ann@example.org''])),
       KV ScmCommitters (StringSliceValue
         (rangeCommitters rt [''cat@example.org'', ''bob@example.org'', ''ann@example.org'']))], None)"
  unfolding contributeCommitters_walked [OF example_MergeBase_31 example_Log_31]
  by (simp add: commit1_def commit2_def commit3_def)

text \<open>
  C9: two runs of the committers computation on the same repository, head and target
  return the same error, the same keys and the same author and committer sets,
  whatever order Go ranges over the two maps in (the lists under the keys may come in
  another order). The computation only reads the repository (\<open>MergeBase\<close>, \<open>Log\<close>,
  \<open>ForEach\<close>): it has no repository to return, the second run starts from the one the
  first run started from.
\<close>

theorem contributeCommitters_deterministic:
  assumes "range_orders rt" and "range_orders rt'"
  shows "snd (contributeCommitters rt r h t) = snd (contributeCommitters rt' r h t) \<and>
         map Key (fst (contributeCommitters rt r h t)) = map Key (fst (contributeCommitters rt' r h t)) \<and>
         strings_at ScmAuthors (fst (contributeCommitters rt r h t))
           = strings_at ScmAuthors (fst (contributeCommitters rt' r h t)) \<and>
         strings_at ScmCommitters (fst (contributeCommitters rt r h t))
           = strings_at ScmCommitters (fst (contributeCommitters rt' r h t))"
  using contributeCommitters_keys [of rt r h t rt']
  by (simp add: contributeCommitters_strings [OF assms(1)] contributeCommitters_strings [OF assms(2)])

theorem contributeCommitters_deterministic_witness:
  "range_orders (local_run example) \<and>
   range_orders ((local_run example)\<lparr>rangeAuthors := rev, rangeCommitters := (\<lambda>ks. ks)\<rparr>) \<and>
   fst (contributeCommitters (local_run example) example commit3 commit1)
     \<noteq> fst (contributeCommitters ((local_run example)\<lparr>rangeAuthors := rev, rangeCommitters := (\<lambda>ks. ks)\<rparr>)
              example commit3 commit1) \<and>
   strings_at ScmAuthors (fst (contributeCommitters (local_run example) example commit3 commit1))
     = strings_at ScmAuthors
         (fst (contributeCommitters ((local_run example)\<lparr>rangeAuthors := rev, rangeCommitters := (\<lambda>ks. ks)\<rparr>)
                example commit3 commit1)) \<and>
   strings_at ScmCommitters (fst (contributeCommitters (local_run example) example commit3 commit1))
     = strings_at ScmCommitters
         (fst (contributeCommitters ((local_run example)\<lparr>rangeAuthors := rev, rangeCommitters := (\<lambda>ks. ks)\<rparr>)
                example commit3 commit1))"
proof -
  let ?rt' = "(local_run example)\<lparr>rangeAuthors := rev, rangeCommitters := (\<lambda>ks. ks)\<rparr>"
  have o: "range_orders (local_run example)" and o': "range_orders ?rt'"
    by (simp_all add: range_orders_def local_run_def)
  have d: "fst (contributeCommitters (local_run example) example commit3 commit1)
             \<noteq> fst (contributeCommitters ?rt' example commit3 commit1)"
    by (simp add: example_committers_31 local_run_def KV_def)
  show ?thesis
    using contributeCommitters_deterministic [OF o o', of example commit3 commit1] o o' d
    by simp
qed

section \<open>Partial results of the orchestrator\<close>

lemma example_refs:
  "Branch_of example ''main'' = Inr \<lparr>Merge = ''refs/heads/main''\<rparr>"
  "ResolveRevision example ''refs/heads/main'' = Inr ''c1''"
  "Head example = Inr \<lparr>ref_Name = ''HEAD'', ref_Hash = ''c3''\<rparr>"
  "Remote example ''origin'' = Inr \<lparr>URLs = [''https://example.org/repo.git'']\<rparr>"
  by (simp_all add: example_def)

lemma example_CommitObject:
  "CommitObject example ''c1'' = Inr commit1"
  "CommitObject example ''c3'' = Inr commit3"
  "CommitObject example ''o1'' = Inr orphan"
  "CommitObject example ''b1'' = Inr backdated"
  by (simp_all add: example_def history_def commit1_def commit2_def commit3_def)

lemma example_calculateCommits:
  "calculateCommits (local_run r) example [] ''main'' = (Some commit3, Some commit1, None)"
  by (simp add: calculateCommits_def example_refs example_CommitObject)

lemma shallow_fields:
  "Branch_of shallow = Branch_of example" "ResolveRevision shallow = ResolveRevision example"
  "CommitObject shallow = CommitObject example" "Head shallow = Head example"
  "Remote shallow = Remote example" "Tree_of shallow = Tree_of example"
  "Patch_to shallow = Patch_to example"
  by (simp_all add: shallow_def)

text \<open>The run on the shallow clone: the committers stage fails, the diffstat stage does not.\<close>

lemma shallow_committers:
  "contributeCommitters rt shallow commit3 commit1 =
     ([], Some (Wrapped (LibError ''object not found'')
        ''not able to find a common ancestor between HEAD and TARGET_BRANCH: object not found''))"
  by (simp add: contributeCommitters_cases shallow_def)

lemma shallow_run:
  "contributeAttributes (local_run shallow) checkout =
     Some [KV ScmType (StringValue ''git''),
           KV ScmRepository (StringSliceValue [''https://example.org/repo.git'']),
           KV ScmBranch (StringValue ''HEAD''),
           KV GitAdditions (IntValue 0), KV GitDeletions (IntValue 3),
           KV GitModifiedFiles (IntValue 1)]"
proof -
  have c: "calculateCommits (local_run shallow) shallow [] ''main'' = (Some commit3, Some commit1, None)"
    by (simp add: calculateCommits_def shallow_fields example_refs example_CommitObject)
  have d: "contributeFilesAndLines shallow commit3 commit1 =
             ([KV GitAdditions (IntValue 0), KV GitDeletions (IntValue 3),
               KV GitModifiedFiles (IntValue 1)], None)"
    by (simp add: contributeFilesAndLines_totals [of shallow commit3 tree3 commit1 tree1]
          shallow_fields example_Tree_of example_Patch_31)
  have g: "checkGitProvider (local_run shallow) = ([], ''main'', [])"
    by (simp add: checkGitProvider_def local_run_def)
  have o: "openLocalRepository (local_run shallow) checkout = Inr shallow"
    by (simp add: openLocalRepository_def local_run_def checkout_def)
  have r: "Remote shallow ''origin'' = Inr \<lparr>URLs = [''https://example.org/repo.git'']\<rparr>"
          "Head shallow = Inr \<lparr>ref_Name = ''HEAD'', ref_Hash = ''c3''\<rparr>"
    by (simp_all add: shallow_fields example_refs)
  show ?thesis
    by (simp add: contributeAttributes_def o g r c contribute_two shallow_committers d)
qed

text \<open>
  C1, as stated, fails: when the committers stage fails, \<open>contributeAttributes\<close> goes on
  to the diffstat stage (\<open>continue\<close>), so what it returns is not exactly the list
  accumulated before the failure. On the shallow clone the committers stage returns an
  error and the result still ends with the three diffstat attributes.
\<close>

theorem contributeAttributes_exactly_accumulated_counterexample:
  "snd (contributeCommitters (local_run shallow) shallow commit3 commit1) \<noteq> None \<and>
   contributeAttributes (local_run shallow) checkout \<noteq>
     Some [KV ScmType (StringValue ''git''),
           KV ScmRepository (StringSliceValue [''https://example.org/repo.git'']),
           KV ScmBranch (StringValue ''HEAD'')] \<and>
   contributeAttributes (local_run shallow) checkout =
     Some ([KV ScmType (StringValue ''git''),
            KV ScmRepository (StringSliceValue [''https://example.org/repo.git'']),
            KV ScmBranch (StringValue ''HEAD'')] @
           fst (contributeFilesAndLines shallow commit3 commit1))"
proof -
  have d: "contributeFilesAndLines shallow commit3 commit1 =
             ([KV GitAdditions (IntValue 0), KV GitDeletions (IntValue 3),
               KV GitModifiedFiles (IntValue 1)], None)"
    by (simp add: contributeFilesAndLines_totals [of shallow commit3 tree3 commit1 tree1]
          shallow_fields example_Tree_of example_Patch_31)
  show ?thesis
    by (simp add: shallow_committers shallow_run d)
qed

text \<open>
  C1, amended: \<open>contributeAttributes\<close> always returns a list and never an error. When the
  repository open, the remote lookup, the \<open>HEAD\<close> lookup or the revision resolution
  fails, it returns exactly the attributes accumulated by the stages before it. When
  the revisions resolve, it returns those attributes followed by the attributes of each
  contribution (committers, then diffstat) that returns no error: a contribution that
  fails adds nothing, removes nothing and does not stop the one after it.
\<close>

theorem contributeAttributes_partial_results:
  assumes "checkGitProvider rt = (headSha, targetBranchEnv, gitProvider)"
      and "base = KV ScmType (StringValue ''git'') #
                  (if gitProvider \<noteq> [] then [KV ScmProvider (StringValue gitProvider)] else [])"
  shows "contributeAttributes rt scm \<noteq> None \<and>
   (openLocalRepository rt scm = Inl e \<longrightarrow> contributeAttributes rt scm = Some []) \<and>
   (openLocalRepository rt scm = Inr r \<and> Remote r ''origin'' = Inl e \<longrightarrow>
      contributeAttributes rt scm = Some base) \<and>
   (openLocalRepository rt scm = Inr r \<and> Remote r ''origin'' = Inr origin \<and> Head r = Inl e \<longrightarrow>
      contributeAttributes rt scm = Some (base @ [KV ScmRepository (StringSliceValue (URLs origin))])) \<and>
   (openLocalRepository rt scm = Inr r \<and> Remote r ''origin'' = Inr origin \<and> Head r = Inr branch \<and>
    calculateCommits rt r headSha targetBranchEnv = (hc, tc, Some e) \<longrightarrow>
      contributeAttributes rt scm =
        Some (base @ [KV ScmRepository (StringSliceValue (URLs origin)),
                      KV ScmBranch (StringValue (ref_Name branch))])) \<and>
   (openLocalRepository rt scm = Inr r \<and> Remote r ''origin'' = Inr origin \<and> Head r = Inr branch \<and>
    calculateCommits rt r headSha targetBranchEnv = (Some headCommit, Some targetCommit, None) \<longrightarrow>
      contributeAttributes rt scm =
        Some (base @ [KV ScmRepository (StringSliceValue (URLs origin)),
                      KV ScmBranch (StringValue (ref_Name branch))] @
              (if snd (contributeCommitters rt r headCommit targetCommit) = None
               then fst (contributeCommitters rt r headCommit targetCommit) else []) @
              (if snd (contributeFilesAndLines r headCommit targetCommit) = None
               then fst (contributeFilesAndLines r headCommit targetCommit) else [])))"
proof -
  have "contributeAttributes rt scm \<noteq> None"
  proof (cases "openLocalRepository rt scm")
    case (Inl e)
    then show ?thesis by (simp add: contributeAttributes_def)
  next
    case (Inr r)
    then show ?thesis
      using calculateCommits_shape [of rt r headSha targetBranchEnv] assms(1)
      by (auto simp: contributeAttributes_def Let_def split: sum.splits)
  qed
  then show ?thesis
    using assms by (simp add: contributeAttributes_def contribute_two del: contribute.simps)
qed

lemma local_run_provider: "checkGitProvider (local_run r) = ([], ''main'', [])"
  by (simp add: checkGitProvider_def local_run_def)

lemma local_run_open:
  "openLocalRepository (local_run r) checkout = Inr r"
  "openLocalRepository (local_run r) \<lparr>repositoryPath = ''/nowhere''\<rparr>
     = Inl (LibError ''repository does not exist'')"
  by (simp_all add: openLocalRepository_def local_run_def checkout_def)

lemma example_diffstat_31:
  "contributeFilesAndLines example commit3 commit1 =
     ([KV GitAdditions (IntValue 0), KV GitDeletions (IntValue 3),
       KV GitModifiedFiles (IntValue 1)], None)"
  by (simp add: contributeFilesAndLines_totals [of example commit3 tree3 commit1 tree1]
        example_Tree_of example_Patch_31)

theorem contributeAttributes_partial_results_witness:
  "contributeAttributes (local_run example) \<lparr>repositoryPath = ''/nowhere''\<rparr> = Some [] \<and>
   contributeAttributes (local_run (example\<lparr>Remote := (\<lambda>name. Inl (LibError ''remote not found''))\<rparr>)) checkout
     = Some [KV ScmType (StringValue ''git'')] \<and>
   contributeAttributes (local_run (example\<lparr>Head := Inl (LibError ''reference not found'')\<rparr>)) checkout
     = Some [KV ScmType (StringValue ''git''),
             KV ScmRepository (StringSliceValue [''https://example.org/repo.git''])] \<and>
   contributeAttributes (local_run (example\<lparr>Branch_of := (\<lambda>name. Inl (LibError ''branch not found''))\<rparr>)) checkout
     = Some [KV ScmType (StringValue ''git''),
             KV ScmRepository (StringSliceValue [''https://example.org/repo.git'']),
             KV ScmBranch (StringValue ''HEAD'')] \<and>
   contributeAttributes (local_run shallow) checkout
     = Some [KV ScmType (StringValue ''git''),
             KV ScmRepository (StringSliceValue [''https://example.org/repo.git'']),
             KV ScmBranch (StringValue ''HEAD''),
             KV GitAdditions (IntValue 0), KV GitDeletions (IntValue 3),
             KV GitModifiedFiles (IntValue 1)] \<and>
   contributeAttributes (local_run example) checkout
     = Some [KV ScmType (StringValue ''git''),
             KV ScmRepository (StringSliceValue [''https://example.org/repo.git'']),
             KV ScmBranch (StringValue ''HEAD''),
             KV ScmAuthors (StringSliceValue [''cat@example.org'', ''bob@example.org'', ''ann@example.org'']),
             KV ScmCommitters (StringSliceValue [''ann@example.org'', ''bob@example.org'', ''cat@example.org'']),
             KV GitAdditions (IntValue 0), KV GitDeletions (IntValue 3),
             KV GitModifiedFiles (IntValue 1)]"
proof -
  let ?origin = "\<lparr>URLs = [''https://example.org/repo.git'']\<rparr>"
  let ?head = "\<lparr>ref_Name = ''HEAD'', ref_Hash = ''c3''\<rparr>"
  let ?no_remote = "example\<lparr>Remote := (\<lambda>name. Inl (LibError ''remote not found''))\<rparr>"
  let ?no_head = "example\<lparr>Head := Inl (LibError ''reference not found'')\<rparr>"
  let ?no_branch = "example\<lparr>Branch_of := (\<lambda>name. Inl (LibError ''branch not found''))\<rparr>"
  have a: "contributeAttributes (local_run example) \<lparr>repositoryPath = ''/nowhere''\<rparr> = Some []"
    using contributeAttributes_partial_results [OF local_run_provider [of example] refl,
            where scm = "\<lparr>repositoryPath = ''/nowhere''\<rparr>"
              and e = "LibError ''repository does not exist''"]
    by (simp add: local_run_open)
  have b: "contributeAttributes (local_run ?no_remote) checkout = Some [KV ScmType (StringValue ''git'')]"
    using contributeAttributes_partial_results [OF local_run_provider [of ?no_remote] refl,
            where scm = checkout and r = ?no_remote and e = "LibError ''remote not found''"]
    by (simp add: local_run_open)
  have c: "contributeAttributes (local_run ?no_head) checkout
             = Some [KV ScmType (StringValue ''git''),
                     KV ScmRepository (StringSliceValue [''https://example.org/repo.git''])]"
    using contributeAttributes_partial_results [OF local_run_provider [of ?no_head] refl,
            where scm = checkout and r = ?no_head and e = "LibError ''reference not found''"
              and origin = ?origin]
    by (simp add: local_run_open example_refs)
  have d: "contributeAttributes (local_run ?no_branch) checkout
             = Some [KV ScmType (StringValue ''git''),
                     KV ScmRepository (StringSliceValue [''https://example.org/repo.git'']),
                     KV ScmBranch (StringValue ''HEAD'')]"
    using contributeAttributes_partial_results [OF local_run_provider [of ?no_branch] refl,
            where scm = checkout and r = ?no_branch and origin = ?origin and branch = ?head
              and hc = None and tc = None
              and e = "Wrapped (LibError ''branch not found'')
                         ''not able to retrieve the main TARGET_BRANCH: branch not found''"]
    by (simp add: local_run_open example_refs calculateCommits_def)
  have e: "contributeAttributes (local_run shallow) checkout
             = Some [KV ScmType (StringValue ''git''),
                     KV ScmRepository (StringSliceValue [''https://example.org/repo.git'']),
                     KV ScmBranch (StringValue ''HEAD''),
                     KV GitAdditions (IntValue 0), KV GitDeletions (IntValue 3),
                     KV GitModifiedFiles (IntValue 1)]"
    using contributeAttributes_partial_results [OF local_run_provider [of shallow] refl,
            where scm = checkout and r = shallow and origin = ?origin and branch = ?head
              and headCommit = commit3 and targetCommit = commit1]
    by (simp add: local_run_open shallow_fields example_refs example_CommitObject
          calculateCommits_def shallow_committers
          contributeFilesAndLines_totals [of shallow commit3 tree3 commit1 tree1]
          example_Tree_of example_Patch_31)
  have f: "contributeAttributes (local_run example) checkout
     = Some [KV ScmType (StringValue ''git''),
             KV ScmRepository (StringSliceValue [''https://example.org/repo.git'']),
             KV ScmBranch (StringValue ''HEAD''),
             KV ScmAuthors (StringSliceValue [''cat@example.org'', ''bob@example.org'', ''ann@example.org'']),
             KV ScmCommitters (StringSliceValue [''ann@example.org'', ''bob@example.org'', ''cat@example.org'']),
             KV GitAdditions (IntValue 0), KV GitDeletions (IntValue 3),
             KV GitModifiedFiles (IntValue 1)]"
    using contributeAttributes_partial_results [OF local_run_provider [of example] refl,
            where scm = checkout and r = example and origin = ?origin and branch = ?head
              and headCommit = commit3 and targetCommit = commit1]
    by (simp add: local_run_open example_refs example_calculateCommits example_committers_31
          example_diffstat_31) (simp add: local_run_def)
  from a b c d e f show ?thesis by simp
qed

section \<open>Revision resolution\<close>



section \<open>The scenario of the spec\<close>

lemma example_strings_31:
  "strings_at ScmAuthors (fst (contributeCommitters (local_run example) example commit3 commit1))
     = {''ann@example.org'', ''bob@example.org'', ''cat@example.org''}"
  "strings_at ScmCommitters (fst (contributeCommitters (local_run example) example commit3 commit1))
     = {''ann@example.org'', ''bob@example.org'', ''cat@example.org''}"
  by (auto simp: example_committers_31 strings_at_def KV_def ScmAuthors_def ScmCommitters_def
        local_run_def)

text \<open>
  C4, as stated, fails on the scenario (target \<open>commit1\<close>, head \<open>commit3\<close>, three
  authors): the author and committer sets are not those of \<open>commit2\<close> and \<open>commit3\<close>
  alone, and the diffstat is not 4 additions and 1 deletion.
\<close>

theorem scenario_expected_counterexample:
  "strings_at ScmAuthors (fst (contributeCommitters (local_run example) example commit3 commit1))
     \<noteq> {''bob@example.org'', ''cat@example.org''} \<and>
   strings_at ScmCommitters (fst (contributeCommitters (local_run example) example commit3 commit1))
     \<noteq> {''bob@example.org'', ''cat@example.org''} \<and>
   contributeFilesAndLines example commit3 commit1 \<noteq>
     ([KV GitAdditions (IntValue 4), KV GitDeletions (IntValue 1),
       KV GitModifiedFiles (IntValue 1)], None)"
proof -
  have n: "''ann@example.org'' \<notin> {''bob@example.org'', ''cat@example.org''}" by simp
  have s: "{''ann@example.org'', ''bob@example.org'', ''cat@example.org''}
             \<noteq> {''bob@example.org'', ''cat@example.org''}"
  proof
    assume "{''ann@example.org'', ''bob@example.org'', ''cat@example.org''}
              = {''bob@example.org'', ''cat@example.org''}"
    then have "''ann@example.org'' \<in> {''bob@example.org'', ''cat@example.org''}"
      by (rule subst) (rule insertI1)
    with n show False ..
  qed
  have d: "contributeFilesAndLines example commit3 commit1 \<noteq>
     ([KV GitAdditions (IntValue 4), KV GitDeletions (IntValue 1),
       KV GitModifiedFiles (IntValue 1)], None)"
    by (simp add: example_diffstat_31 KV_def)
  show ?thesis
    unfolding example_strings_31 using s d by (intro conjI)
qed

text \<open>
  C4, amended: on the scenario the first merge-base is \<open>commit1\<close>; the history walk from
  \<open>commit3\<close> bounded by the author timestamp of \<open>commit1\<close> yields \<open>commit3\<close>, \<open>commit2\<close>
  and \<open>commit1\<close> itself (its committer timestamp is not before the bound), so the
  author and committer sets are those of the three commits; the diffstat is that of
  the one patch between the trees of the two commits, which differ by the three lines
  of \<open>a.txt\<close>: one changed file, and additions and deletions that add up to three.
\<close>

theorem scenario_result:
  "MergeBase example commit3 commit1 = Inr [commit1] \<and>
   Log example \<lparr>From = Hash commit3, Since = Some (When (Author commit1))\<rparr> =
     Inr \<lparr>iter_commits = [commit3, commit2, commit1], iter_stop = None\<rparr> \<and>
   snd (contributeCommitters (local_run example) example commit3 commit1) = None \<and>
   strings_at ScmAuthors (fst (contributeCommitters (local_run example) example commit3 commit1))
     = {Email (Author commit1), Email (Author commit2), Email (Author commit3)} \<and>
   strings_at ScmCommitters (fst (contributeCommitters (local_run example) example commit3 commit1))
     = {Email (Committer commit1), Email (Committer commit2), Email (Committer commit3)} \<and>
   (\<exists>additions deletions.
      contributeFilesAndLines example commit3 commit1 =
        ([KV GitAdditions (IntValue additions), KV GitDeletions (IntValue deletions),
          KV GitModifiedFiles (IntValue 1)], None) \<and>
      additions + deletions = 3)"
proof -
  have "Email (Author commit1) = ''ann@example.org''" "Email (Committer commit1) = ''ann@example.org''"
       "Email (Author commit2) = ''bob@example.org''" "Email (Committer commit2) = ''bob@example.org''"
       "Email (Author commit3) = ''cat@example.org''" "Email (Committer commit3) = ''cat@example.org''"
    by (simp_all add: commit1_def commit2_def commit3_def)
  moreover have "snd (contributeCommitters (local_run example) example commit3 commit1) = None"
    by (simp add: example_committers_31)
  moreover have "\<exists>additions deletions.
      contributeFilesAndLines example commit3 commit1 =
        ([KV GitAdditions (IntValue additions), KV GitDeletions (IntValue deletions),
          KV GitModifiedFiles (IntValue 1)], None) \<and>
      additions + deletions = 3"
    unfolding example_diffstat_31 by (intro exI [of _ 0] exI [of _ 3]) simp
  ultimately show ?thesis
    by (simp add: example_MergeBase_31 example_Log_31 example_strings_31)
qed

section \<open>Head equal to target\<close>

lemma example_MergeBase_11: "MergeBase example commit1 commit1 = Inr [commit1]"
  by (simp add: example_def)

lemma example_Log_11:
  "Log example \<lparr>From = Hash commit1, Since = Some (When (Author commit1))\<rparr> =
     Inr \<lparr>iter_commits = [commit1], iter_stop = None\<rparr>"
  by (simp add: example_def commit3_def commit2_def commit1_def history_def)

lemma example_committers_11:
  "contributeCommitters (local_run example) example commit1 commit1 =
     ([KV ScmAuthors (StringSliceValue [''ann@example.org'']),
       KV ScmCommitters (StringSliceValue [''ann@example.org''])], None)"
  unfolding contributeCommitters_walked [OF example_MergeBase_11 example_Log_11]
  by (simp add: commit1_def local_run_def)

text \<open>
  C5, as stated, fails: with head and target both \<open>commit1\<close>, the merge-base is
  \<open>commit1\<close>, the walk bounded by its author timestamp yields \<open>commit1\<close> itself, and the
  two attributes are emitted with its e-mail.
\<close>

theorem head_equals_target_counterexample:
  "fst (contributeCommitters (local_run example) example commit1 commit1) \<noteq> [] \<and>
   strings_at ScmAuthors (fst (contributeCommitters (local_run example) example commit1 commit1))
     = {''ann@example.org''} \<and>
   strings_at ScmCommitters (fst (contributeCommitters (local_run example) example commit1 commit1))
     = {''ann@example.org''}"
  by (simp add: example_committers_11 strings_at_def KV_def ScmAuthors_def ScmCommitters_def)

text \<open>
  C5, amended: when the head commit is the target commit, the committers computation
  returns no error and its author and committer sets are the e-mails of the commits
  that the history walk from that commit yields, the walk being bounded by the author
  timestamp of the merge-base; the two attributes are left out exactly when the walk
  yields no commit. The diffstat of the two identical trees, whose patch has no
  entry, is 0 additions, 0 deletions and 0 changed files.
\<close>

theorem head_equals_target:
  assumes "MergeBase r h h = Inr (a # rest)"
      and "Log r \<lparr>From = Hash h, Since = Some (When (Author a))\<rparr> = Inr it"
      and "range_orders rt"
      and "Tree_of r h = Inr tree" and "Patch_to r tree tree = Inr p" and "Stats p = []"
  shows "snd (contributeCommitters rt r h h) = None \<and>
         strings_at ScmAuthors (fst (contributeCommitters rt r h h))
           = (\<lambda>c. Email (Author c)) ` set (iter_commits it) \<and>
         strings_at ScmCommitters (fst (contributeCommitters rt r h h))
           = (\<lambda>c. Email (Committer c)) ` set (iter_commits it) \<and>
         (fst (contributeCommitters rt r h h) = []) = (iter_commits it = []) \<and>
         contributeFilesAndLines r h h =
           ([KV GitAdditions (IntValue 0), KV GitDeletions (IntValue 0),
             KV GitModifiedFiles (IntValue 0)], None)"
proof -
  have "contributeFilesAndLines r h h =
           ([KV GitAdditions (IntValue 0), KV GitDeletions (IntValue 0),
             KV GitModifiedFiles (IntValue 0)], None)"
    using contributeFilesAndLines_totals [OF assms(4) assms(4) assms(5)] assms(6) by simp
  moreover have "snd (contributeCommitters rt r h h) = None"
    and "(fst (contributeCommitters rt r h h) = []) = (iter_commits it = [])"
    by (simp_all add: contributeCommitters_walked [OF assms(1,2)])
  ultimately show ?thesis
    using assms(1,2) by (simp add: contributeCommitters_strings [OF assms(3)])
qed

theorem head_equals_target_witness:
  "range_orders (local_run example) \<and>
   contributeCommitters (local_run example) example backdated backdated = ([], None) \<and>
   strings_at ScmAuthors (fst (contributeCommitters (local_run example) example commit1 commit1))
     = {Email (Author commit1)} \<and>
   strings_at ScmCommitters (fst (contributeCommitters (local_run example) example commit1 commit1))
     = {Email (Committer commit1)} \<and>
   contributeFilesAndLines example commit1 commit1 =
     ([KV GitAdditions (IntValue 0), KV GitDeletions (IntValue 0),
       KV GitModifiedFiles (IntValue 0)], None) \<and>
   contributeFilesAndLines example backdated backdated =
     ([KV GitAdditions (IntValue 0), KV GitDeletions (IntValue 0),
       KV GitModifiedFiles (IntValue 0)], None)"
proof -
  have o: "range_orders (local_run example)"
    by (simp add: range_orders_def local_run_def)
  have t: "Tree_of example commit1 = Inr tree1" "Tree_of example backdated = Inr tree1"
    by (simp_all add: example_def commit1_def backdated_def)
  have p: "Patch_to example tree1 tree1 = Inr \<lparr>Stats = []\<rparr>"
    by (simp add: example_def)
  have s: "Stats \<lparr>Stats = []\<rparr> = []" by simp
  have "fst (contributeCommitters (local_run example) example backdated backdated) = []"
       "snd (contributeCommitters (local_run example) example backdated backdated) = None"
       "contributeFilesAndLines example backdated backdated =
          ([KV GitAdditions (IntValue 0), KV GitDeletions (IntValue 0),
            KV GitModifiedFiles (IntValue 0)], None)"
    using head_equals_target [OF example_MergeBase_bb example_Log_bb o t(2) p s] by simp_all
  then show ?thesis
    using head_equals_target [OF example_MergeBase_11 example_Log_11 o t(1) p s] o
    by (simp add: prod_eq_iff)
qed

section \<open>The history walk visits the history, each commit once\<close>













end
